theory Spec2Isabelle
  imports Main
begin

section \<open>The web-search tool of the voice agent (src/agent.py)\<close>

text \<open>
  The repository's only logic of its own is the coroutine \<^verbatim>\<open>Assistant.search_web\<close>
  (agent.py, lines 58 to 85):
  \<^verbatim>\<open>
    logger.info("TAVILY SearchAgent thinking...")
    client = TavilyClient(os.environ["TAVILY_API_KEY"])
    response = client.search(query=query, search_depth="advanced")
    print(response)
    logger.info("TAVILY SearchAgent finished. simulating delay...")
    delay = os.environ.get("TAVILY_SEARCH_DELAY")
    if delay:
        await asyncio.sleep(int(delay))
    return response
  \<close>
  It is embedded as a function on an explicit world: the process environment, the state
  of the remote search service, and the trace of effects performed so far. The search
  library and the event loop's sleep are parameters; every call into them may raise.
\<close>

subsection \<open>Python values, their types, and exceptions\<close>

text \<open>
  Values as far as the tool's interface needs them: the search library answers with a
  dictionary, the signature of \<^verbatim>\<open>search_web\<close> announces \<^verbatim>\<open>str\<close>. Floats are left out.
\<close>

datatype pyval =
    PyNone
  | PyBool bool
  | PyInt int
  | PyStr string
  | PyList "pyval list"
  | PyDict "(string \<times> pyval) list"

datatype pytype = NoneType | TyBool | TyInt | TyStr | TyList | TyDict

fun py_type :: "pyval \<Rightarrow> pytype" where
  "py_type PyNone = NoneType"
| "py_type (PyBool b) = TyBool"
| "py_type (PyInt i) = TyInt"
| "py_type (PyStr s) = TyStr"
| "py_type (PyList xs) = TyList"
| "py_type (PyDict kvs) = TyDict"

text \<open>
  The exceptions the handler's own statements raise are \<^verbatim>\<open>KeyError\<close> (line 74, the
  subscript on \<^verbatim>\<open>os.environ\<close>) and \<^verbatim>\<open>ValueError\<close> (line 83, \<^verbatim>\<open>int\<close>). Everything a
  collaborator raises is kept as it is; \<open>Other\<close> carries what is not one of the two.
\<close>

datatype 'e exn = KeyError string | ValueError string | Other 'e

subsection \<open>The builtin \<^verbatim>\<open>int\<close> on strings\<close>

text \<open>
  \<^verbatim>\<open>int(s)\<close> in base 10: white space around the literal is skipped, one sign is
  allowed, the digits may be grouped by single underscores, and nothing else may follow.
  A string is a list of code points below 256; in that range the white space of \<^verbatim>\<open>int\<close>
  is the ASCII white space together with U+0085 and U+00A0, and the only decimal digits
  are \<^verbatim>\<open>0\<close> to \<^verbatim>\<open>9\<close>. The interpreter refuses literals of more than
  \<^verbatim>\<open>sys.int_max_str_digits\<close> digits (0 switches the limit off; it never applies to 640
  digits or fewer).
\<close>

definition py_isspace :: "char \<Rightarrow> bool" where
  "py_isspace c \<longleftrightarrow>
     c \<in> {CHR '' '', CHR 0x09, CHR 0x0A, CHR 0x0B, CHR 0x0C, CHR 0x0D, CHR 0x85, CHR 0xA0}"

definition py_isdigit :: "char \<Rightarrow> bool" where
  "py_isdigit c \<longleftrightarrow> c \<in> set ''0123456789''"

definition digit_value :: "char \<Rightarrow> int" where
  "digit_value c = int (of_char c) - 48"

definition digits_value :: "string \<Rightarrow> int" where
  "digits_value ds = foldl (\<lambda>acc c. 10 * acc + digit_value c) 0 ds"

fun double_underscore :: "string \<Rightarrow> bool" where
  "double_underscore (a # b # cs) =
     ((a = CHR ''_'' \<and> b = CHR ''_'') \<or> double_underscore (b # cs))"
| "double_underscore cs = False"

definition py_int :: "nat \<Rightarrow> string \<Rightarrow> int option" where
  "py_int max_str_digits s =
     (let s1 = dropWhile py_isspace s;
          neg = (s1 \<noteq> [] \<and> hd s1 = CHR ''-'');
          s2 = (if s1 \<noteq> [] \<and> (hd s1 = CHR ''-'' \<or> hd s1 = CHR ''+'') then tl s1 else s1);
          body = takeWhile (\<lambda>c. py_isdigit c \<or> c = CHR ''_'') s2;
          rest = dropWhile (\<lambda>c. py_isdigit c \<or> c = CHR ''_'') s2;
          ds = filter py_isdigit body
      in if body = [] \<or> hd body = CHR ''_'' \<or> last body = CHR ''_''
            \<or> double_underscore body \<or> \<not> list_all py_isspace rest
            \<or> (max_str_digits \<noteq> 0 \<and> max 640 max_str_digits < length ds)
         then None
         else Some (if neg then - digits_value ds else digits_value ds))"

subsection \<open>The world, the collaborators, the effects\<close>

text \<open>
  An effect is recorded when it is performed. \<open>SearchCall q d resp\<close> is one outbound
  request \<^verbatim>\<open>client.search(query=q, search_depth=d)\<close> together with what came back;
  \<open>Sleep n\<close> is one suspension of \<open>n\<close> seconds: an \<^verbatim>\<open>await asyncio.sleep(n)\<close> that the event
  loop has accepted. A sleep that the loop refuses by raising suspends nothing and leaves
  no event.
\<close>

datatype ('e, 'r) event =
    LogInfo string
  | SearchCall string string "'e exn + 'r"
  | Print 'r
  | Sleep int

record ('s, 'e, 'r) world =
  environ :: "string \<Rightarrow> string option"
  int_max_str_digits :: nat
  service :: 's
  trace :: "('e, 'r) event list"

text \<open>
  The collaborators: the constructor of the search client, its \<^verbatim>\<open>search\<close> method (which
  may read and change the state of the remote service), and the event loop's \<^verbatim>\<open>sleep\<close>
  (\<open>Some e\<close>: the call raises \<open>e\<close> instead of suspending, as CPython's loop does with
  \<^verbatim>\<open>OverflowError\<close> for a delay that does not fit a double).
\<close>

record ('s, 'c, 'e, 'r) runtime =
  TavilyClient :: "string \<Rightarrow> 'e exn + 'c"
  search :: "'c \<Rightarrow> string \<Rightarrow> string \<Rightarrow> 's \<Rightarrow> ('e exn + 'r) \<times> 's"
  asyncio_sleep :: "int \<Rightarrow> 'e exn option"

definition emit :: "('e, 'r) event \<Rightarrow> ('s, 'e, 'r) world \<Rightarrow> ('s, 'e, 'r) world" where
  "emit ev w = w\<lparr>trace := trace w @ [ev]\<rparr>"

subsection \<open>The coroutine\<close>

text \<open>
  The body has one suspension point, the \<^verbatim>\<open>await\<close> of line 83 (the search itself is a
  plain call). \<open>search_web_start\<close> runs the coroutine from its first statement to that
  point or to its end; \<open>search_web_resume\<close> is line 84 after the sleep. The two log
  calls and the print are taken to succeed, the environment is not written during an
  invocation, and cancellation of a suspended task is not modelled.
\<close>

datatype ('e, 'r) progress = Sleeping 'r int | Finished "'e exn + 'r"

definition search_web_start ::
  "('s, 'c, 'e, 'r) runtime \<Rightarrow> string \<Rightarrow> ('s, 'e, 'r) world
     \<Rightarrow> ('e, 'r) progress \<times> ('s, 'e, 'r) world" where
  "search_web_start rt query w =
     (let w1 = emit (LogInfo ''TAVILY SearchAgent thinking...'') w in
      case environ w1 ''TAVILY_API_KEY'' of
        None \<Rightarrow> (Finished (Inl (KeyError ''TAVILY_API_KEY'')), w1)
      | Some key \<Rightarrow>
         (case TavilyClient rt key of
            Inl e \<Rightarrow> (Finished (Inl e), w1)
          | Inr client \<Rightarrow>
             (case search rt client query ''advanced'' (service w1) of
                (resp, s') \<Rightarrow>
                  (let w2 = emit (SearchCall query ''advanced'' resp) (w1\<lparr>service := s'\<rparr>) in
                   case resp of
                     Inl e \<Rightarrow> (Finished (Inl e), w2)
                   | Inr response \<Rightarrow>
                      (let w3 = emit (Print response) w2;
                           w4 = emit (LogInfo ''TAVILY SearchAgent finished. simulating delay...'') w3
                       in case environ w4 ''TAVILY_SEARCH_DELAY'' of
                            None \<Rightarrow> (Finished (Inr response), w4)
                          | Some delay \<Rightarrow>
                             if delay = [] then (Finished (Inr response), w4)
                             else (case py_int (int_max_str_digits w4) delay of
                                     None \<Rightarrow> (Finished (Inl (ValueError delay)), w4)
                                   | Some n \<Rightarrow>
                                      (case asyncio_sleep rt n of
                                         Some e \<Rightarrow> (Finished (Inl e), w4)
                                       | None \<Rightarrow> (Sleeping response n, emit (Sleep n) w4))))))))"

definition search_web_resume :: "'r \<Rightarrow> 'e exn + 'r" where
  "search_web_resume response = Inr response"

text \<open>One invocation, run to completion.\<close>

definition search_web ::
  "('s, 'c, 'e, 'r) runtime \<Rightarrow> string \<Rightarrow> ('s, 'e, 'r) world
     \<Rightarrow> ('e exn + 'r) \<times> ('s, 'e, 'r) world" where
  "search_web rt query w =
     (case search_web_start rt query w of
        (Sleeping response n, w') \<Rightarrow> (search_web_resume response, w')
      | (Finished out, w') \<Rightarrow> (out, w'))"

text \<open>What an invocation added to the trace, and the projections the statements use.\<close>

definition new_events ::
  "('s, 'e, 'r) world \<Rightarrow> ('s, 'e, 'r) world \<Rightarrow> ('e, 'r) event list" where
  "new_events w w' = drop (length (trace w)) (trace w')"

fun search_requests :: "('e, 'r) event list \<Rightarrow> (string \<times> string) list" where
  "search_requests [] = []"
| "search_requests (SearchCall q d resp # evs) = (q, d) # search_requests evs"
| "search_requests (ev # evs) = search_requests evs"

fun suspensions :: "('e, 'r) event list \<Rightarrow> int list" where
  "suspensions [] = []"
| "suspensions (Sleep n # evs) = n # suspensions evs"
| "suspensions (ev # evs) = suspensions evs"

fun responses_for :: "string \<Rightarrow> ('e, 'r) event list \<Rightarrow> ('e exn + 'r) list" where
  "responses_for q [] = []"
| "responses_for q (SearchCall q' d resp # evs) =
     (if q' = q then resp # responses_for q evs else responses_for q evs)"
| "responses_for q (ev # evs) = responses_for q evs"

text \<open>
  The declared interface, line 59: \<^verbatim>\<open>async def search_web(self, query: str) -> str\<close>.
  Python does not enforce the annotation.
\<close>

definition search_web_return_annotation :: pytype where
  "search_web_return_annotation = TyStr"

subsection \<open>Several invocations on one event loop\<close>

text \<open>
  The event loop runs any number of invocations cooperatively. A task that has not run
  yet holds its query; a started task runs without interruption to its \<^verbatim>\<open>await\<close> or to
  its end, and a sleeping task is resumed at some later moment. Which task moves next is
  not determined.
\<close>

datatype ('e, 'r) task = Pending string | Running "('e, 'r) progress"

inductive sched_step ::
  "('s, 'c, 'e, 'r) runtime \<Rightarrow> ('e, 'r) task list \<times> ('s, 'e, 'r) world
     \<Rightarrow> ('e, 'r) task list \<times> ('s, 'e, 'r) world \<Rightarrow> bool"
  for rt :: "('s, 'c, 'e, 'r) runtime" where
  start: "i < length ts \<Longrightarrow> ts ! i = Pending q \<Longrightarrow> search_web_start rt q w = (p, w')
     \<Longrightarrow> sched_step rt (ts, w) (ts[i := Running p], w')"
| resume: "i < length ts \<Longrightarrow> ts ! i = Running (Sleeping r n)
     \<Longrightarrow> sched_step rt (ts, w) (ts[i := Running (Finished (search_web_resume r))], w)"

inductive sched_run ::
  "('s, 'c, 'e, 'r) runtime \<Rightarrow> ('e, 'r) task list \<times> ('s, 'e, 'r) world
     \<Rightarrow> ('e, 'r) task list \<times> ('s, 'e, 'r) world \<Rightarrow> bool"
  for rt :: "('s, 'c, 'e, 'r) runtime" where
  idle: "sched_run rt c c"
| step: "sched_run rt c c' \<Longrightarrow> sched_step rt c' c'' \<Longrightarrow> sched_run rt c c''"

text \<open>
  What the pool of tasks keeps true about the trace: a task that has not started has
  left no request for its query, and a task that holds a response holds the one response
  recorded for its query.
\<close>

fun task_ok :: "string \<Rightarrow> ('e, 'r) event list \<Rightarrow> ('e, 'r) task \<Rightarrow> bool" where
  "task_ok q evs (Pending q') = (q' = q \<and> responses_for q evs = [])"
| "task_ok q evs (Running (Sleeping r n)) = (responses_for q evs = [Inr r])"
| "task_ok q evs (Running (Finished (Inr r))) = (responses_for q evs = [Inr r])"
| "task_ok q evs (Running (Finished (Inl e))) = True"

definition pool_inv ::
  "string list \<Rightarrow> ('s, 'e, 'r) world \<Rightarrow> ('e, 'r) task list \<times> ('s, 'e, 'r) world \<Rightarrow> bool" where
  "pool_inv qs w0 c =
     (case c of (ts, w) \<Rightarrow>
        length ts = length qs \<and> environ w = environ w0
        \<and> int_max_str_digits w = int_max_str_digits w0
        \<and> (\<exists>evs. trace w = trace w0 @ evs
               \<and> (\<forall>i < length qs. task_ok (qs ! i) evs (ts ! i))))"

subsection \<open>A stub of the collaborators, for evaluating the handler\<close>

text \<open>
  The service state of the stub counts the requests it has served and numbers its
  answers with it. The stub's client refuses an empty key, its search refuses the key
  \<^verbatim>\<open>expired\<close>, and its sleep accepts every delay.
\<close>

definition stub_runtime :: "(nat, string, string, pyval) runtime" where
  "stub_runtime =
     \<lparr>TavilyClient = (\<lambda>key. if key = [] then Inl (Other ''MissingAPIKeyError'') else Inr key),
      search = (\<lambda>client query depth served.
        (if client = ''expired'' then Inl (Other ''InvalidAPIKeyError'')
         else Inr (PyDict [(''query'', PyStr query), (''request'', PyInt (int served)),
                           (''results'', PyList [])]),
         Suc served)),
      asyncio_sleep = (\<lambda>n. None)\<rparr>"

definition stub_world :: "(string \<times> string) list \<Rightarrow> (nat, string, pyval) world" where
  "stub_world env = \<lparr>environ = map_of env, int_max_str_digits = 4300, service = 0, trace = []\<rparr>"

text \<open>
  The default event loop of CPython schedules a positive delay by adding it to its clock,
  a double: an integer delay that rounds beyond the largest double makes that addition
  raise \<^verbatim>\<open>OverflowError\<close>, every other delay is accepted. The bound is
  \<open>2 ^ 1024 - 2 ^ 970\<close>, a number of 309 digits. \<open>cpython_runtime\<close> is the stub with
  this sleep.
\<close>

definition cpython_sleep :: "int \<Rightarrow> string exn option" where
  "cpython_sleep n = (if 2 ^ 1024 - 2 ^ 970 \<le> n then Some (Other ''OverflowError'') else None)"

definition cpython_runtime :: "(nat, string, string, pyval) runtime" where
  "cpython_runtime = stub_runtime\<lparr>asyncio_sleep := cpython_sleep\<rparr>"

section \<open>The paths through one invocation\<close>

lemma new_events_append [simp]: "trace w' = trace w @ evs \<Longrightarrow> new_events w w' = evs"
  by (simp add: new_events_def)

lemma py_int_empty: "py_int lim [] = None"
  by (simp add: py_int_def)

lemma py_int_2: "py_int 4300 ''2'' = Some 2"
  by (simp add: py_int_def py_isspace_def py_isdigit_def digits_value_def digit_value_def)

lemma py_int_3: "py_int 4300 ''3'' = Some 3"
  by (simp add: py_int_def py_isspace_def py_isdigit_def digits_value_def digit_value_def)

text \<open>Line 74 raises: the environment has no credential.\<close>

lemma start_key_absent:
  assumes "environ w ''TAVILY_API_KEY'' = None"
  shows "search_web_start rt q w =
           (Finished (Inl (KeyError ''TAVILY_API_KEY'')),
            w\<lparr>trace := trace w @ [LogInfo ''TAVILY SearchAgent thinking...'']\<rparr>)"
  using assms by (simp add: search_web_start_def emit_def)

text \<open>Line 74 raises: the client's constructor refuses the credential.\<close>

lemma start_client_refused:
  assumes "environ w ''TAVILY_API_KEY'' = Some key" and "TavilyClient rt key = Inl e"
  shows "search_web_start rt q w =
           (Finished (Inl e), w\<lparr>trace := trace w @ [LogInfo ''TAVILY SearchAgent thinking...'']\<rparr>)"
  using assms by (simp add: search_web_start_def emit_def)

text \<open>Line 75 raises.\<close>

lemma start_search_failed:
  assumes "environ w ''TAVILY_API_KEY'' = Some key" and "TavilyClient rt key = Inr c"
    and "search rt c q ''advanced'' (service w) = (Inl e, s')"
  shows "search_web_start rt q w =
           (Finished (Inl e),
            w\<lparr>service := s',
              trace := trace w @ [LogInfo ''TAVILY SearchAgent thinking...'',
                                  SearchCall q ''advanced'' (Inl e)]\<rparr>)"
  using assms by (simp add: search_web_start_def emit_def)

text \<open>The search answers; what remains is lines 79 to 84.\<close>

lemma start_search_ok:
  assumes "environ w ''TAVILY_API_KEY'' = Some key" and "TavilyClient rt key = Inr c"
    and "search rt c q ''advanced'' (service w) = (Inr r, s')"
  shows "search_web_start rt q w =
          (let w4 = w\<lparr>service := s',
                      trace := trace w @ [LogInfo ''TAVILY SearchAgent thinking...'',
                           SearchCall q ''advanced'' (Inr r), Print r,
                           LogInfo ''TAVILY SearchAgent finished. simulating delay...'']\<rparr> in
           case environ w ''TAVILY_SEARCH_DELAY'' of
             None \<Rightarrow> (Finished (Inr r), w4)
           | Some delay \<Rightarrow>
               if delay = [] then (Finished (Inr r), w4)
               else (case py_int (int_max_str_digits w) delay of
                       None \<Rightarrow> (Finished (Inl (ValueError delay)), w4)
                     | Some n \<Rightarrow>
                        (case asyncio_sleep rt n of
                           Some e \<Rightarrow> (Finished (Inl e), w4)
                         | None \<Rightarrow> (Sleeping r n, w4\<lparr>trace := trace w4 @ [Sleep n]\<rparr>))))"
  using assms by (simp add: search_web_start_def emit_def Let_def split: option.splits)

text \<open>
  The outcome of an invocation is determined by the two settings it reads, the
  interpreter's digit limit and the answer of the search client; nothing else of the
  world enters it.
\<close>

lemma outcome_determined:
  assumes "environ wa ''TAVILY_API_KEY'' = environ wb ''TAVILY_API_KEY''"
    and "environ wa ''TAVILY_SEARCH_DELAY'' = environ wb ''TAVILY_SEARCH_DELAY''"
    and "int_max_str_digits wa = int_max_str_digits wb"
    and "\<forall>client. fst (search rt client q ''advanced'' (service wa))
                  = fst (search rt client q ''advanced'' (service wb))"
  shows "fst (search_web rt q wa) = fst (search_web rt q wb)"
proof (cases "environ wa ''TAVILY_API_KEY''")
  case None
  with assms(1) show ?thesis
    by (simp add: search_web_def start_key_absent)
next
  case (Some key)
  note key = Some
  show ?thesis
  proof (cases "TavilyClient rt key")
    case (Inl e)
    with key assms(1) show ?thesis
      by (simp add: search_web_def start_client_refused [where key = key])
  next
    case (Inr client)
    obtain ra sa where sa: "search rt client q ''advanced'' (service wa) = (ra, sa)"
      by (cases "search rt client q ''advanced'' (service wa)")
    obtain rb sb where sb: "search rt client q ''advanced'' (service wb) = (rb, sb)"
      by (cases "search rt client q ''advanced'' (service wb)")
    from assms(4) have "fst (search rt client q ''advanced'' (service wa))
                        = fst (search rt client q ''advanced'' (service wb))" ..
    with sa sb have same: "rb = ra"
      by simp
    show ?thesis
    proof (cases ra)
      case (Inl e)
      with key Inr sa sb same assms(1) show ?thesis
        by (simp add: search_web_def start_search_failed [where key = key and c = client])
    next
      case (Inr r)
      with key \<open>TavilyClient rt key = Inr client\<close> sa sb same assms(1,2,3) show ?thesis
        by (simp add: search_web_def start_search_ok [where key = key and c = client] Let_def
              split: option.splits)
    qed
  qed
qed

section \<open>The invariant of interleaved invocations\<close>

lemma responses_for_append:
  "responses_for q (xs @ ys) = responses_for q xs @ responses_for q ys"
  by (induction q xs rule: responses_for.induct) simp_all

lemma task_ok_cong:
  "responses_for q evs = responses_for q evs' \<Longrightarrow> task_ok q evs t = task_ok q evs' t"
  by (induction q evs t rule: task_ok.induct) simp_all

text \<open>
  Starting a task only appends to the trace, leaves the configuration alone, records
  requests for its own query only, and leaves the task holding the response recorded.
\<close>

lemma start_events:
  assumes "search_web_start rt q w = (p, w')"
  shows "\<exists>evs. trace w' = trace w @ evs \<and> environ w' = environ w
           \<and> int_max_str_digits w' = int_max_str_digits w
           \<and> (\<forall>q'. q' \<noteq> q \<longrightarrow> responses_for q' evs = [])
           \<and> task_ok q evs (Running p)"
  using assms
  by (auto simp add: search_web_start_def emit_def Let_def
        split: option.splits sum.splits prod.splits if_splits)

lemma pool_invI:
  assumes "length ts = length qs" and "environ w = environ w0"
    and "int_max_str_digits w = int_max_str_digits w0"
    and "trace w = trace w0 @ evs"
    and "\<And>i. i < length qs \<Longrightarrow> task_ok (qs ! i) evs (ts ! i)"
  shows "pool_inv qs w0 (ts, w)"
  unfolding pool_inv_def prod.case using assms by blast

lemma pool_invE:
  assumes "pool_inv qs w0 (ts, w)"
  obtains evs where "length ts = length qs" and "environ w = environ w0"
    and "int_max_str_digits w = int_max_str_digits w0"
    and "trace w = trace w0 @ evs"
    and "\<And>i. i < length qs \<Longrightarrow> task_ok (qs ! i) evs (ts ! i)"
  using assms unfolding pool_inv_def prod.case by blast

lemma pool_inv_init: "pool_inv qs w (map Pending qs, w)"
  by (rule pool_invI [where evs = "[]"]) simp_all

lemma pool_inv_step:
  assumes dist: "distinct qs" and inv: "pool_inv qs w0 c" and st: "sched_step rt c c'"
  shows "pool_inv qs w0 c'"
  using st
proof (cases rule: sched_step.cases)
  case (start i ts q w p w')
  from inv [unfolded start(1)] obtain evs where
    len: "length ts = length qs" and env: "environ w = environ w0"
    and lim: "int_max_str_digits w = int_max_str_digits w0"
    and tr: "trace w = trace w0 @ evs"
    and ok: "\<And>j. j < length qs \<Longrightarrow> task_ok (qs ! j) evs (ts ! j)"
    by (rule pool_invE) blast
  from start(3) len have i: "i < length qs" by simp
  from ok [OF i] start(4) have q: "q = qs ! i" and fresh: "responses_for (qs ! i) evs = []"
    by simp_all
  from start_events [OF start(5)] obtain evs' where
    tr': "trace w' = trace w @ evs'" and env': "environ w' = environ w"
    and lim': "int_max_str_digits w' = int_max_str_digits w"
    and others: "\<forall>q'. q' \<noteq> q \<longrightarrow> responses_for q' evs' = []"
    and own: "task_ok q evs' (Running p)"
    by blast
  have tasks: "task_ok (qs ! j) (evs @ evs') ((ts[i := Running p]) ! j)" if j: "j < length qs" for j
  proof (cases "j = i")
    case True
    have "responses_for q (evs @ evs') = responses_for q evs'"
      using fresh q by (simp add: responses_for_append)
    then have "task_ok q (evs @ evs') (Running p) = task_ok q evs' (Running p)"
      by (rule task_ok_cong)
    with own True q start(3) show ?thesis by simp
  next
    case False
    with dist j i have "qs ! j \<noteq> q"
      by (simp add: q nth_eq_iff_index_eq)
    with others have "responses_for (qs ! j) (evs @ evs') = responses_for (qs ! j) evs"
      by (simp add: responses_for_append)
    then have "task_ok (qs ! j) (evs @ evs') (ts ! j) = task_ok (qs ! j) evs (ts ! j)"
      by (rule task_ok_cong)
    with ok [OF j] False show ?thesis by simp
  qed
  show ?thesis
    unfolding start(2)
  proof (rule pool_invI [where evs = "evs @ evs'"])
    show "length (ts[i := Running p]) = length qs" using len by simp
    show "environ w' = environ w0" using env env' by simp
    show "int_max_str_digits w' = int_max_str_digits w0" using lim lim' by simp
    show "trace w' = trace w0 @ evs @ evs'" using tr tr' by simp
    show "task_ok (qs ! j) (evs @ evs') (ts[i := Running p] ! j)" if "j < length qs" for j
      using that by (rule tasks)
  qed
next
  case (resume i ts r n w)
  from inv [unfolded resume(1)] obtain evs where
    len: "length ts = length qs" and env: "environ w = environ w0"
    and lim: "int_max_str_digits w = int_max_str_digits w0"
    and tr: "trace w = trace w0 @ evs"
    and ok: "\<And>j. j < length qs \<Longrightarrow> task_ok (qs ! j) evs (ts ! j)"
    by (rule pool_invE) blast
  have tasks: "task_ok (qs ! j) evs ((ts[i := Running (Finished (search_web_resume r))]) ! j)"
    if j: "j < length qs" for j
  proof (cases "j = i")
    case True
    with ok [OF j] resume(3,4) show ?thesis
      by (simp add: search_web_resume_def)
  next
    case False
    with ok [OF j] show ?thesis by simp
  qed
  show ?thesis
    unfolding resume(2)
  proof (rule pool_invI [where evs = evs])
    show "length (ts[i := Running (Finished (search_web_resume r))]) = length qs"
      using len by simp
    show "task_ok (qs ! j) evs (ts[i := Running (Finished (search_web_resume r))] ! j)"
      if "j < length qs" for j
      using that by (rule tasks)
  qed (fact env lim tr)+
qed

lemma pool_inv_run:
  assumes "distinct qs" and "sched_run rt c0 c" and "pool_inv qs w0 c0"
  shows "pool_inv qs w0 c"
  using assms(2,3)
proof (induction rule: sched_run.induct)
  case (idle c)
  then show ?case .
next
  case (step c c' c'')
  from step.IH [OF step.prems] have "pool_inv qs w0 c'" .
  with assms(1) show ?case using step.hyps(2) by (rule pool_inv_step)
qed

section \<open>The stub, evaluated\<close>

lemma stub_runtime_simps:
  "TavilyClient stub_runtime key =
     (if key = [] then Inl (Other ''MissingAPIKeyError'') else Inr key)"
  "search stub_runtime client query depth served =
     (if client = ''expired'' then Inl (Other ''InvalidAPIKeyError'')
      else Inr (PyDict [(''query'', PyStr query), (''request'', PyInt (int served)),
                        (''results'', PyList [])]),
      Suc served)"
  "asyncio_sleep stub_runtime n = None"
  by (simp_all add: stub_runtime_def)

lemma stub_world_simps:
  "environ (stub_world env) = map_of env"
  "int_max_str_digits (stub_world env) = 4300"
  "service (stub_world env) = 0"
  "trace (stub_world env) = []"
  by (simp_all add: stub_world_def)

lemmas stub_defs = stub_runtime_simps stub_world_simps

section \<open>Integer literals and the loop's clock\<close>

text \<open>A string of digits parses to its value, up to the digit limit.\<close>

lemma double_underscore_has_underscore:
  "double_underscore cs \<Longrightarrow> CHR ''_'' \<in> set cs"
  by (induction cs rule: double_underscore.induct) auto

lemma digit_is_plain:
  assumes "py_isdigit c"
  shows "\<not> py_isspace c" and "c \<noteq> CHR ''-''" and "c \<noteq> CHR ''+''" and "c \<noteq> CHR ''_''"
  using assms by (auto simp: py_isdigit_def py_isspace_def)

lemma py_int_digits:
  assumes digits: "\<forall>c \<in> set s. py_isdigit c" and ne: "s \<noteq> []"
  shows "py_int lim s =
           (if lim \<noteq> 0 \<and> max 640 lim < length s then None else Some (digits_value s))"
proof -
  from digits ne have h: "py_isdigit (hd s)" and l: "py_isdigit (last s)"
    by simp_all
  note hd_plain = digit_is_plain [OF h]
  note last_plain = digit_is_plain [OF l]
  from hd_plain(1) ne have sp: "dropWhile py_isspace s = s"
    by (cases s) simp_all
  from digits have body: "takeWhile (\<lambda>c. py_isdigit c \<or> c = CHR ''_'') s = s"
    and rest: "dropWhile (\<lambda>c. py_isdigit c \<or> c = CHR ''_'') s = []"
    and ds: "filter py_isdigit s = s"
    by simp_all
  have "CHR ''_'' \<notin> set s"
    using digits digit_is_plain(4) by blast
  then have du: "\<not> double_underscore s"
    using double_underscore_has_underscore by blast
  have s2: "(if s \<noteq> [] \<and> (hd s = CHR ''-'' \<or> hd s = CHR ''+'') then tl s else s) = s"
    using hd_plain(2,3) by simp
  show ?thesis
    unfolding py_int_def sp Let_def s2 body rest ds
    using ne hd_plain(2,4) last_plain(4) du by simp
qed

lemma digits_value_zeros:
  "foldl (\<lambda>acc c. 10 * acc + digit_value c) a (replicate n (CHR ''0'')) = a * 10 ^ n"
  by (induction n arbitrary: a) (simp_all add: digit_value_def)

lemma py_int_one_and_zeros:
  assumes "n < 640"
  shows "py_int lim (CHR ''1'' # replicate n (CHR ''0'')) = Some (10 ^ n)"
proof -
  have one: "digit_value (CHR ''1'') = 1"
    by (simp add: digit_value_def)
  have val: "digits_value (CHR ''1'' # replicate n (CHR ''0'')) = 10 ^ n"
    by (simp add: digits_value_def digits_value_zeros one)
  have "\<forall>c \<in> set (CHR ''1'' # replicate n (CHR ''0'')). py_isdigit c"
    by (auto simp: py_isdigit_def)
  from py_int_digits [OF this, of lim] assms val show ?thesis
    by simp
qed

lemma beyond_double: "(2::int) ^ 1024 - 2 ^ 970 \<le> 10 ^ 309"
  by simp

lemma cpython_sleep_refuses: "cpython_sleep (10 ^ 309) = Some (Other ''OverflowError'')"
  using beyond_double by (simp only: cpython_sleep_def if_True)

lemma cpython_runtime_simps:
  "TavilyClient cpython_runtime key = TavilyClient stub_runtime key"
  "search cpython_runtime client query depth served = search stub_runtime client query depth served"
  "asyncio_sleep cpython_runtime n = cpython_sleep n"
  by (simp_all add: cpython_runtime_def)

section \<open>The claims\<close>

subsection \<open>C1: one search request per call\<close>

text \<open>
  Claim C1, as the code has it. One call of \<open>search_web\<close> issues exactly one outbound
  search request, with the caller's query and the depth \<^verbatim>\<open>advanced\<close>, when the credential
  is in the environment and the client is constructed from it; it issues none when the
  credential is absent or the constructor raises. On no path is there a second request.
  The query may be any string, empty or not.
\<close>

theorem search_requests_per_invocation:
  "search_requests (new_events w (snd (search_web rt q w))) =
     (case environ w ''TAVILY_API_KEY'' of
        None \<Rightarrow> []
      | Some key \<Rightarrow>
         (case TavilyClient rt key of
            Inl e \<Rightarrow> []
          | Inr client \<Rightarrow> [(q, ''advanced'')]))"
  by (simp add: search_web_def search_web_start_def emit_def new_events_def Let_def
        split: option.splits sum.splits prod.splits)

theorem search_requests_per_invocation_witness:
  "environ (stub_world [(''TAVILY_API_KEY'', ''tvly-1'')]) ''TAVILY_API_KEY'' = Some ''tvly-1''
   \<and> TavilyClient stub_runtime ''tvly-1'' = Inr ''tvly-1''
   \<and> search_requests (new_events (stub_world [(''TAVILY_API_KEY'', ''tvly-1'')])
         (snd (search_web stub_runtime ''current weather in Bangkok''
                 (stub_world [(''TAVILY_API_KEY'', ''tvly-1'')]))))
       = [(''current weather in Bangkok'', ''advanced'')]"
  using search_requests_per_invocation
          [where w = "stub_world [(''TAVILY_API_KEY'', ''tvly-1'')]" and rt = stub_runtime
             and q = "''current weather in Bangkok''"]
  by (simp add: stub_defs)

text \<open>
  As stated for every non-empty query, the claim fails where the credential is missing:
  the call ends at line 74 and no request leaves.
\<close>

theorem one_request_per_call_counterexample:
  "''current weather in Bangkok'' \<noteq> []
   \<and> search_requests (new_events (stub_world [])
         (snd (search_web stub_runtime ''current weather in Bangkok'' (stub_world [])))) = []"
  by (simp add: search_web_def start_key_absent stub_world_simps)

subsection \<open>C2: the search result is returned as it is\<close>

text \<open>
  Claim C2. In an invocation whose search call succeeds with \<open>r\<close>, any value the tool
  returns is \<open>r\<close> itself: the handler neither inspects nor rebuilds it (the result type is
  a parameter of the handler). The tool does return it when the delay setting is unset
  or empty, and when the setting parses and the sleep completes.
\<close>

theorem successful_search_result_returned_as_is:
  assumes "environ w ''TAVILY_API_KEY'' = Some key"
    and "TavilyClient rt key = Inr client"
    and "search rt client q ''advanced'' (service w) = (Inr r, s')"
  shows "(\<forall>v. fst (search_web rt q w) = Inr v \<longrightarrow> v = r)
       \<and> (environ w ''TAVILY_SEARCH_DELAY'' = None \<or> environ w ''TAVILY_SEARCH_DELAY'' = Some []
            \<longrightarrow> fst (search_web rt q w) = Inr r)
       \<and> (\<forall>d n. environ w ''TAVILY_SEARCH_DELAY'' = Some d
                \<and> py_int (int_max_str_digits w) d = Some n \<and> asyncio_sleep rt n = None
            \<longrightarrow> fst (search_web rt q w) = Inr r)"
  using assms
  by (auto simp add: search_web_def start_search_ok search_web_resume_def Let_def
        split: option.splits if_splits)

theorem successful_search_result_returned_as_is_witness:
  "environ (stub_world [(''TAVILY_API_KEY'', ''tvly-1'')]) ''TAVILY_API_KEY'' = Some ''tvly-1''
   \<and> TavilyClient stub_runtime ''tvly-1'' = Inr ''tvly-1''
   \<and> search stub_runtime ''tvly-1'' ''current weather in Bangkok'' ''advanced''
        (service (stub_world [(''TAVILY_API_KEY'', ''tvly-1'')]))
       = (Inr (PyDict [(''query'', PyStr ''current weather in Bangkok''),
                       (''request'', PyInt 0), (''results'', PyList [])]), 1)
   \<and> environ (stub_world [(''TAVILY_API_KEY'', ''tvly-1'')]) ''TAVILY_SEARCH_DELAY'' = None
   \<and> fst (search_web stub_runtime ''current weather in Bangkok''
            (stub_world [(''TAVILY_API_KEY'', ''tvly-1'')]))
       = Inr (PyDict [(''query'', PyStr ''current weather in Bangkok''),
                      (''request'', PyInt 0), (''results'', PyList [])])"
proof -
  let ?w = "stub_world [(''TAVILY_API_KEY'', ''tvly-1'')]"
  let ?q = "''current weather in Bangkok''"
  let ?r = "PyDict [(''query'', PyStr ?q), (''request'', PyInt 0), (''results'', PyList [])]"
  have k: "environ ?w ''TAVILY_API_KEY'' = Some ''tvly-1''"
    and c: "TavilyClient stub_runtime ''tvly-1'' = Inr ''tvly-1''"
    and s: "search stub_runtime ''tvly-1'' ?q ''advanced'' (service ?w) = (Inr ?r, 1)"
    and d: "environ ?w ''TAVILY_SEARCH_DELAY'' = None"
    by (simp_all add: stub_defs)
  from successful_search_result_returned_as_is [OF k c s] d
  have "fst (search_web stub_runtime ?q ?w) = Inr ?r"
    by blast
  with k c s d show ?thesis
    by (intro conjI)
qed

subsection \<open>C3: the configured delay, once per invocation\<close>

text \<open>
  Claim C3, as the code has it. With the delay setting present and parsing to a
  non-negative integer \<open>N\<close>, an invocation whose search succeeds and whose sleep of
  \<open>N\<close> seconds the event loop accepts is suspended exactly once, for \<open>N\<close> seconds, after
  the search, the print and the second log line and before it returns the search result.
  An invocation that follows does the same on its own: each has one suspension of \<open>N\<close>
  seconds, whatever went before.
\<close>

theorem each_invocation_sleeps_once_for_the_configured_delay:
  assumes "environ w ''TAVILY_API_KEY'' = Some key"
    and "TavilyClient rt key = Inr client"
    and "environ w ''TAVILY_SEARCH_DELAY'' = Some d"
    and "py_int (int_max_str_digits w) d = Some N"
    and "0 \<le> N"
    and "asyncio_sleep rt N = None"
    and "search rt client q1 ''advanced'' (service w) = (Inr r1, s1)"
    and "search rt client q2 ''advanced'' s1 = (Inr r2, s2)"
    and "search_web rt q1 w = (out1, w1)"
    and "search_web rt q2 w1 = (out2, w2)"
  shows "new_events w w1 =
           [LogInfo ''TAVILY SearchAgent thinking...'',
            SearchCall q1 ''advanced'' (Inr r1), Print r1,
            LogInfo ''TAVILY SearchAgent finished. simulating delay...'', Sleep N]
       \<and> new_events w1 w2 =
           [LogInfo ''TAVILY SearchAgent thinking...'',
            SearchCall q2 ''advanced'' (Inr r2), Print r2,
            LogInfo ''TAVILY SearchAgent finished. simulating delay...'', Sleep N]
       \<and> suspensions (new_events w w1) = [N]
       \<and> suspensions (new_events w1 w2) = [N]
       \<and> search_web_start rt q1 w = (Sleeping r1 N, w1) \<and> out1 = Inr r1
       \<and> search_web_start rt q2 w1 = (Sleeping r2 N, w2) \<and> out2 = Inr r2"
proof -
  have d: "d \<noteq> []"
    using assms(4) by (auto simp: py_int_empty)
  have w1: "w1 = w\<lparr>service := s1,
                  trace := trace w @
                    [LogInfo ''TAVILY SearchAgent thinking...'',
                     SearchCall q1 ''advanced'' (Inr r1), Print r1,
                     LogInfo ''TAVILY SearchAgent finished. simulating delay...'', Sleep N]\<rparr>"
    and o1: "search_web_start rt q1 w = (Sleeping r1 N, w1) \<and> out1 = Inr r1"
    using assms(1-7,9) d
    by (auto simp add: search_web_def start_search_ok search_web_resume_def Let_def)
  have env1: "environ w1 ''TAVILY_API_KEY'' = Some key"
    "environ w1 ''TAVILY_SEARCH_DELAY'' = Some d"
    "py_int (int_max_str_digits w1) d = Some N"
    "search rt client q2 ''advanced'' (service w1) = (Inr r2, s2)"
    using assms(1,3,4,8) by (simp_all add: w1)
  have w2: "w2 = w1\<lparr>service := s2,
                  trace := trace w1 @
                    [LogInfo ''TAVILY SearchAgent thinking...'',
                     SearchCall q2 ''advanced'' (Inr r2), Print r2,
                     LogInfo ''TAVILY SearchAgent finished. simulating delay...'', Sleep N]\<rparr>"
    and o2: "search_web_start rt q2 w1 = (Sleeping r2 N, w2) \<and> out2 = Inr r2"
    using env1 assms(2,6,10) d
    by (auto simp add: search_web_def start_search_ok search_web_resume_def Let_def)
  have e1: "new_events w w1 =
           [LogInfo ''TAVILY SearchAgent thinking...'',
            SearchCall q1 ''advanced'' (Inr r1), Print r1,
            LogInfo ''TAVILY SearchAgent finished. simulating delay...'', Sleep N]"
    by (rule new_events_append) (simp add: w1)
  have e2: "new_events w1 w2 =
           [LogInfo ''TAVILY SearchAgent thinking...'',
            SearchCall q2 ''advanced'' (Inr r2), Print r2,
            LogInfo ''TAVILY SearchAgent finished. simulating delay...'', Sleep N]"
    by (rule new_events_append) (simp add: w2)
  show ?thesis
    using o1 o2 by (simp add: e1 e2)
qed

theorem each_invocation_sleeps_once_for_the_configured_delay_witness:
  "environ (stub_world [(''TAVILY_API_KEY'', ''tvly-1''), (''TAVILY_SEARCH_DELAY'', ''3'')])
      ''TAVILY_SEARCH_DELAY'' = Some ''3''
   \<and> py_int 4300 ''3'' = Some 3
   \<and> asyncio_sleep stub_runtime 3 = None
   \<and> suspensions (new_events
         (stub_world [(''TAVILY_API_KEY'', ''tvly-1''), (''TAVILY_SEARCH_DELAY'', ''3'')])
         (snd (search_web stub_runtime ''latest exchange rate USD to THB''
            (stub_world [(''TAVILY_API_KEY'', ''tvly-1''), (''TAVILY_SEARCH_DELAY'', ''3'')]))))
       = [3]
   \<and> suspensions (new_events
         (snd (search_web stub_runtime ''latest exchange rate USD to THB''
            (stub_world [(''TAVILY_API_KEY'', ''tvly-1''), (''TAVILY_SEARCH_DELAY'', ''3'')])))
         (snd (search_web stub_runtime ''current weather in Bangkok''
            (snd (search_web stub_runtime ''latest exchange rate USD to THB''
               (stub_world [(''TAVILY_API_KEY'', ''tvly-1''), (''TAVILY_SEARCH_DELAY'', ''3'')]))))))
       = [3]
   \<and> fst (search_web stub_runtime ''latest exchange rate USD to THB''
            (stub_world [(''TAVILY_API_KEY'', ''tvly-1''), (''TAVILY_SEARCH_DELAY'', ''3'')]))
       = Inr (PyDict [(''query'', PyStr ''latest exchange rate USD to THB''),
                      (''request'', PyInt 0), (''results'', PyList [])])"
proof -
  let ?w = "stub_world [(''TAVILY_API_KEY'', ''tvly-1''), (''TAVILY_SEARCH_DELAY'', ''3'')]"
  let ?q1 = "''latest exchange rate USD to THB''"
  let ?q2 = "''current weather in Bangkok''"
  let ?r1 = "PyDict [(''query'', PyStr ?q1), (''request'', PyInt 0), (''results'', PyList [])]"
  let ?r2 = "PyDict [(''query'', PyStr ?q2), (''request'', PyInt 1), (''results'', PyList [])]"
  let ?w1 = "snd (search_web stub_runtime ?q1 ?w)"
  let ?w2 = "snd (search_web stub_runtime ?q2 ?w1)"
  have k: "environ ?w ''TAVILY_API_KEY'' = Some ''tvly-1''"
    and c: "TavilyClient stub_runtime ''tvly-1'' = Inr ''tvly-1''"
    and d: "environ ?w ''TAVILY_SEARCH_DELAY'' = Some ''3''"
    and n: "py_int (int_max_str_digits ?w) ''3'' = Some 3"
    and s1: "search stub_runtime ''tvly-1'' ?q1 ''advanced'' (service ?w) = (Inr ?r1, 1)"
    and s2: "search stub_runtime ''tvly-1'' ?q2 ''advanced'' 1 = (Inr ?r2, 2)"
    by (simp_all add: stub_defs py_int_3)
  have nn: "(0::int) \<le> 3" by simp
  have ok: "asyncio_sleep stub_runtime 3 = None"
    by (rule stub_runtime_simps(3))
  have i1: "search_web stub_runtime ?q1 ?w = (fst (search_web stub_runtime ?q1 ?w), ?w1)"
    and i2: "search_web stub_runtime ?q2 ?w1 = (fst (search_web stub_runtime ?q2 ?w1), ?w2)"
    by simp_all
  note fact = each_invocation_sleeps_once_for_the_configured_delay [OF k c d n nn ok s1 s2 i1 i2]
  note a = fact [THEN conjunct2, THEN conjunct2, THEN conjunct1]
  note b = fact [THEN conjunct2, THEN conjunct2, THEN conjunct2, THEN conjunct1]
  note o = fact [THEN conjunct2, THEN conjunct2, THEN conjunct2, THEN conjunct2,
                 THEN conjunct2, THEN conjunct1]
  from d py_int_3 ok a b o show ?thesis
    by (intro conjI)
qed

text \<open>
  As stated for every non-negative integer setting, the claim fails on a setting beyond
  the loop's clock: \<^verbatim>\<open>1\<close> followed by 309 zeros parses, the sleep raises
  \<^verbatim>\<open>OverflowError\<close>, nothing suspends and nothing is returned.
\<close>

theorem delay_beyond_double_counterexample:
  "environ (stub_world [(''TAVILY_API_KEY'', ''tvly-1''),
                        (''TAVILY_SEARCH_DELAY'', CHR ''1'' # replicate 309 (CHR ''0''))])
      ''TAVILY_SEARCH_DELAY'' = Some (CHR ''1'' # replicate 309 (CHR ''0''))
   \<and> py_int 4300 (CHR ''1'' # replicate 309 (CHR ''0'')) = Some (10 ^ 309)
   \<and> (0::int) \<le> 10 ^ 309
   \<and> fst (search cpython_runtime ''tvly-1'' ''latest exchange rate USD to THB'' ''advanced'' 0)
       = Inr (PyDict [(''query'', PyStr ''latest exchange rate USD to THB''),
                      (''request'', PyInt 0), (''results'', PyList [])])
   \<and> fst (search_web cpython_runtime ''latest exchange rate USD to THB''
            (stub_world [(''TAVILY_API_KEY'', ''tvly-1''),
                         (''TAVILY_SEARCH_DELAY'', CHR ''1'' # replicate 309 (CHR ''0''))]))
       = Inl (Other ''OverflowError'')
   \<and> suspensions (new_events
         (stub_world [(''TAVILY_API_KEY'', ''tvly-1''),
                      (''TAVILY_SEARCH_DELAY'', CHR ''1'' # replicate 309 (CHR ''0''))])
         (snd (search_web cpython_runtime ''latest exchange rate USD to THB''
            (stub_world [(''TAVILY_API_KEY'', ''tvly-1''),
                         (''TAVILY_SEARCH_DELAY'', CHR ''1'' # replicate 309 (CHR ''0''))]))))
       = []"
proof -
  let ?d = "CHR ''1'' # replicate 309 (CHR ''0'')"
  let ?w = "stub_world [(''TAVILY_API_KEY'', ''tvly-1''), (''TAVILY_SEARCH_DELAY'', ?d)]"
  let ?q = "''latest exchange rate USD to THB''"
  let ?r = "PyDict [(''query'', PyStr ?q), (''request'', PyInt 0), (''results'', PyList [])]"
  have k: "environ ?w ''TAVILY_API_KEY'' = Some ''tvly-1''"
    and c: "TavilyClient cpython_runtime ''tvly-1'' = Inr ''tvly-1''"
    and s: "search cpython_runtime ''tvly-1'' ?q ''advanced'' (service ?w) = (Inr ?r, 1)"
    and d: "environ ?w ''TAVILY_SEARCH_DELAY'' = Some ?d"
    and lim: "int_max_str_digits ?w = 4300"
    and tr: "trace ?w = []"
    by (simp_all add: cpython_runtime_simps stub_defs del: replicate.simps)
  have n: "py_int 4300 ?d = Some (10 ^ 309)"
    by (rule py_int_one_and_zeros) simp
  have ne: "?d \<noteq> []"
    by simp
  have refuse: "asyncio_sleep cpython_runtime (10 ^ 309) = Some (Other ''OverflowError'')"
    by (simp only: cpython_runtime_simps cpython_sleep_refuses)
  have st: "search_web_start cpython_runtime ?q ?w =
              (Finished (Inl (Other ''OverflowError'')),
               ?w\<lparr>service := 1,
                 trace := trace ?w @
                   [LogInfo ''TAVILY SearchAgent thinking...'',
                    SearchCall ?q ''advanced'' (Inr ?r), Print ?r,
                    LogInfo ''TAVILY SearchAgent finished. simulating delay...'']\<rparr>)"
    unfolding start_search_ok [OF k c s] Let_def d lim n refuse option.case if_not_P [OF ne] ..
  have out: "fst (search_web cpython_runtime ?q ?w) = Inl (Other ''OverflowError'')"
    and quiet: "suspensions (new_events ?w (snd (search_web cpython_runtime ?q ?w))) = []"
    by (simp_all add: search_web_def st)
  have pos: "(0::int) \<le> 10 ^ 309"
    by simp
  have s': "fst (search cpython_runtime ''tvly-1'' ?q ''advanced'' 0) = Inr ?r"
    by (simp add: cpython_runtime_simps stub_runtime_simps)
  from d n pos s' out quiet show ?thesis
    by (intro conjI)
qed

subsection \<open>C4: no delay setting, no suspension\<close>

text \<open>
  Claim C4. With the delay setting absent from the environment an invocation awaits no
  sleep on any path: the coroutine runs to its end without suspending, and when the
  search succeeds it returns the result right after the second log line.
\<close>

theorem no_suspension_when_delay_unset:
  assumes "environ w ''TAVILY_SEARCH_DELAY'' = None"
  shows "suspensions (new_events w (snd (search_web rt q w))) = []
       \<and> (\<exists>out. fst (search_web_start rt q w) = Finished out)
       \<and> (\<forall>key client r s'.
            environ w ''TAVILY_API_KEY'' = Some key \<and> TavilyClient rt key = Inr client
              \<and> search rt client q ''advanced'' (service w) = (Inr r, s')
            \<longrightarrow> search_web rt q w =
                 (Inr r,
                  w\<lparr>service := s',
                    trace := trace w @
                      [LogInfo ''TAVILY SearchAgent thinking...'',
                       SearchCall q ''advanced'' (Inr r), Print r,
                       LogInfo ''TAVILY SearchAgent finished. simulating delay...'']\<rparr>))"
  using assms
  by (simp add: search_web_def search_web_start_def emit_def new_events_def Let_def
        split: option.splits sum.splits prod.splits)

theorem no_suspension_when_delay_unset_witness:
  "environ (stub_world [(''TAVILY_API_KEY'', ''tvly-1'')]) ''TAVILY_SEARCH_DELAY'' = None
   \<and> suspensions (new_events (stub_world [(''TAVILY_API_KEY'', ''tvly-1'')])
         (snd (search_web stub_runtime ''current weather in Bangkok''
                 (stub_world [(''TAVILY_API_KEY'', ''tvly-1'')])))) = []
   \<and> fst (search_web stub_runtime ''current weather in Bangkok''
            (stub_world [(''TAVILY_API_KEY'', ''tvly-1'')]))
       = Inr (PyDict [(''query'', PyStr ''current weather in Bangkok''),
                      (''request'', PyInt 0), (''results'', PyList [])])"
proof -
  let ?w = "stub_world [(''TAVILY_API_KEY'', ''tvly-1'')]"
  let ?q = "''current weather in Bangkok''"
  let ?r = "PyDict [(''query'', PyStr ?q), (''request'', PyInt 0), (''results'', PyList [])]"
  have d: "environ ?w ''TAVILY_SEARCH_DELAY'' = None"
    by (simp add: stub_defs)
  have s: "environ ?w ''TAVILY_API_KEY'' = Some ''tvly-1''
             \<and> TavilyClient stub_runtime ''tvly-1'' = Inr ''tvly-1''
             \<and> search stub_runtime ''tvly-1'' ?q ''advanced'' (service ?w) = (Inr ?r, 1)"
    by (simp add: stub_defs)
  note fact = no_suspension_when_delay_unset [OF d, of stub_runtime ?q]
  from fact have quiet: "suspensions (new_events ?w (snd (search_web stub_runtime ?q ?w))) = []"
    by (elim conjE)
  from fact s have "\<exists>w'. search_web stub_runtime ?q ?w = (Inr ?r, w')"
    by blast
  then have "fst (search_web stub_runtime ?q ?w) = Inr ?r"
    by auto
  with d quiet show ?thesis
    by (intro conjI)
qed

subsection \<open>C5: a failed search propagates\<close>

text \<open>
  Claim C5. When the search call raises \<open>e\<close>, the tool raises the same \<open>e\<close>. The search
  was called once; nothing is printed, no sleep is awaited, and no text is returned in
  its place.
\<close>

theorem search_failure_propagates_unchanged:
  assumes "environ w ''TAVILY_API_KEY'' = Some key"
    and "TavilyClient rt key = Inr client"
    and "search rt client q ''advanced'' (service w) = (Inl e, s')"
  shows "search_web rt q w =
           (Inl e,
            w\<lparr>service := s',
              trace := trace w @ [LogInfo ''TAVILY SearchAgent thinking...'',
                                  SearchCall q ''advanced'' (Inl e)]\<rparr>)
         \<and> search_requests (new_events w (snd (search_web rt q w))) = [(q, ''advanced'')]"
  using assms by (simp add: search_web_def start_search_failed)

theorem search_failure_propagates_unchanged_witness:
  "environ (stub_world [(''TAVILY_API_KEY'', ''expired'')]) ''TAVILY_API_KEY'' = Some ''expired''
   \<and> TavilyClient stub_runtime ''expired'' = Inr ''expired''
   \<and> search stub_runtime ''expired'' ''news'' ''advanced'' 0 = (Inl (Other ''InvalidAPIKeyError''), 1)
   \<and> fst (search_web stub_runtime ''news'' (stub_world [(''TAVILY_API_KEY'', ''expired'')]))
       = Inl (Other ''InvalidAPIKeyError'')
   \<and> search_requests (trace (snd (search_web stub_runtime ''news''
         (stub_world [(''TAVILY_API_KEY'', ''expired'')])))) = [(''news'', ''advanced'')]"
  using search_failure_propagates_unchanged
          [where w = "stub_world [(''TAVILY_API_KEY'', ''expired'')]" and rt = stub_runtime
             and q = "''news''" and key = "''expired''" and client = "''expired''"
             and e = "Other ''InvalidAPIKeyError''" and s' = 1]
  by (simp add: stub_defs)

subsection \<open>C6: a malformed delay setting\<close>

text \<open>
  Claim C6, as the code has it. With the delay setting present, not empty, and not an
  integer literal, an invocation whose search succeeds ends in the \<^verbatim>\<open>ValueError\<close> that
  \<^verbatim>\<open>int\<close> raises at line 83: after the search, the print and the second log line, with
  no sleep awaited, and without returning the search result. The malformed setting is
  fatal to the invocation.
\<close>

theorem malformed_delay_raises_value_error:
  assumes "environ w ''TAVILY_API_KEY'' = Some key"
    and "TavilyClient rt key = Inr client"
    and "search rt client q ''advanced'' (service w) = (Inr r, s')"
    and "environ w ''TAVILY_SEARCH_DELAY'' = Some d"
    and "d \<noteq> []"
    and "py_int (int_max_str_digits w) d = None"
  shows "search_web rt q w =
           (Inl (ValueError d),
            w\<lparr>service := s',
              trace := trace w @
                [LogInfo ''TAVILY SearchAgent thinking...'',
                 SearchCall q ''advanced'' (Inr r), Print r,
                 LogInfo ''TAVILY SearchAgent finished. simulating delay...'']\<rparr>)
       \<and> suspensions (new_events w (snd (search_web rt q w))) = []"
  using assms by (simp add: search_web_def start_search_ok Let_def)

theorem malformed_delay_raises_value_error_witness:
  "environ (stub_world [(''TAVILY_API_KEY'', ''tvly-1''), (''TAVILY_SEARCH_DELAY'', ''3s'')])
      ''TAVILY_SEARCH_DELAY'' = Some ''3s''
   \<and> ''3s'' \<noteq> []
   \<and> py_int 4300 ''3s'' = None
   \<and> search stub_runtime ''tvly-1'' ''news'' ''advanced'' 0
       = (Inr (PyDict [(''query'', PyStr ''news''), (''request'', PyInt 0),
                       (''results'', PyList [])]), 1)
   \<and> fst (search_web stub_runtime ''news''
            (stub_world [(''TAVILY_API_KEY'', ''tvly-1''), (''TAVILY_SEARCH_DELAY'', ''3s'')]))
       = Inl (ValueError ''3s'')"
  using malformed_delay_raises_value_error
          [where w = "stub_world [(''TAVILY_API_KEY'', ''tvly-1''), (''TAVILY_SEARCH_DELAY'', ''3s'')]"
             and rt = stub_runtime and q = "''news''" and key = "''tvly-1''"
             and client = "''tvly-1''" and s' = 1 and d = "''3s''"
             and r = "PyDict [(''query'', PyStr ''news''), (''request'', PyInt 0),
                              (''results'', PyList [])]"]
  by (simp add: stub_defs py_int_def py_isspace_def py_isdigit_def)

text \<open>
  As stated (the delay is skipped and the invocation completes), the claim fails on the
  setting \<^verbatim>\<open>abc\<close>: the invocation raises.
\<close>

theorem malformed_delay_counterexample:
  "environ (stub_world [(''TAVILY_API_KEY'', ''tvly-1''), (''TAVILY_SEARCH_DELAY'', ''abc'')])
      ''TAVILY_SEARCH_DELAY'' = Some ''abc''
   \<and> py_int 4300 ''abc'' = None
   \<and> fst (search_web stub_runtime ''current weather in Bangkok''
            (stub_world [(''TAVILY_API_KEY'', ''tvly-1''), (''TAVILY_SEARCH_DELAY'', ''abc'')]))
       = Inl (ValueError ''abc'')"
  by (simp add: search_web_def search_web_start_def emit_def stub_defs
        py_int_def py_isspace_def py_isdigit_def)

subsection \<open>C7: the missing credential\<close>

text \<open>
  Claim C7. With the credential absent from the environment, an invocation fails at
  once with the \<^verbatim>\<open>KeyError\<close> of line 74: only the first log line has been written, no
  client has been constructed and no search request has been issued.
\<close>

theorem missing_credential_fails_before_search:
  assumes "environ w ''TAVILY_API_KEY'' = None"
  shows "search_web rt q w =
           (Inl (KeyError ''TAVILY_API_KEY''),
            w\<lparr>trace := trace w @ [LogInfo ''TAVILY SearchAgent thinking...'']\<rparr>)
         \<and> search_requests (new_events w (snd (search_web rt q w))) = []"
  using assms by (simp add: search_web_def start_key_absent)

theorem missing_credential_fails_before_search_witness:
  "environ (stub_world []) ''TAVILY_API_KEY'' = None
   \<and> fst (search_web stub_runtime ''current weather in Bangkok'' (stub_world []))
       = Inl (KeyError ''TAVILY_API_KEY'')
   \<and> trace (snd (search_web stub_runtime ''current weather in Bangkok'' (stub_world [])))
       = [LogInfo ''TAVILY SearchAgent thinking...'']"
  using missing_credential_fails_before_search
          [where w = "stub_world []" and rt = stub_runtime and q = "''current weather in Bangkok''"]
  by (simp add: stub_world_simps)

subsection \<open>C8: invocations do not interfere\<close>

text \<open>
  Claim C8. Let any number of invocations with pairwise different queries run
  interleaved on the event loop, in any order of starts and resumptions. A task that
  has returned \<open>v\<close> returned the one response recorded for its own query, and the
  configuration is what it was. The handler keeps nothing between invocations: two
  worlds that agree on the two settings, on the digit limit and on the client's answer
  to the query give the same outcome, whatever their traces and the rest of their
  environments are.
\<close>

theorem no_cross_talk_between_invocations:
  assumes "distinct qs"
    and "sched_run rt (map Pending qs, w) (ts, w')"
    and "i < length qs"
    and "ts ! i = Running (Finished (Inr v))"
  shows "responses_for (qs ! i) (new_events w w') = [Inr v]
       \<and> environ w' = environ w
       \<and> (environ wa ''TAVILY_API_KEY'' = environ wb ''TAVILY_API_KEY''
            \<and> environ wa ''TAVILY_SEARCH_DELAY'' = environ wb ''TAVILY_SEARCH_DELAY''
            \<and> int_max_str_digits wa = int_max_str_digits wb
            \<and> (\<forall>client. fst (search rt client q ''advanced'' (service wa))
                         = fst (search rt client q ''advanced'' (service wb)))
          \<longrightarrow> fst (search_web rt q wa) = fst (search_web rt q wb))"
proof -
  from assms(1,2) pool_inv_init have "pool_inv qs w (ts, w')"
    by (rule pool_inv_run)
  then obtain evs where tr: "trace w' = trace w @ evs" and env: "environ w' = environ w"
    and ok: "\<And>j. j < length qs \<Longrightarrow> task_ok (qs ! j) evs (ts ! j)"
    by (rule pool_invE) blast
  from ok [OF assms(3)] assms(4) have "responses_for (qs ! i) evs = [Inr v]"
    by simp
  moreover from tr have "new_events w w' = evs"
    by (rule new_events_append)
  ultimately show ?thesis
    using env outcome_determined [of wa wb rt q] by simp
qed

theorem no_cross_talk_between_invocations_witness:
  "distinct [''alpha'', ''beta'']
   \<and> sched_run stub_runtime
        (map Pending [''alpha'', ''beta''],
         stub_world [(''TAVILY_API_KEY'', ''tvly-1''), (''TAVILY_SEARCH_DELAY'', ''2'')])
        ([Running (Finished (Inr (PyDict [(''query'', PyStr ''alpha''), (''request'', PyInt 1),
                                           (''results'', PyList [])]))),
          Running (Sleeping (PyDict [(''query'', PyStr ''beta''), (''request'', PyInt 0),
                                     (''results'', PyList [])]) 2)],
         snd (search_web_start stub_runtime ''alpha''
           (snd (search_web_start stub_runtime ''beta''
             (stub_world [(''TAVILY_API_KEY'', ''tvly-1''), (''TAVILY_SEARCH_DELAY'', ''2'')])))))
   \<and> responses_for ''alpha''
        (new_events
          (stub_world [(''TAVILY_API_KEY'', ''tvly-1''), (''TAVILY_SEARCH_DELAY'', ''2'')])
          (snd (search_web_start stub_runtime ''alpha''
            (snd (search_web_start stub_runtime ''beta''
              (stub_world [(''TAVILY_API_KEY'', ''tvly-1''), (''TAVILY_SEARCH_DELAY'', ''2'')]))))))
       = [Inr (PyDict [(''query'', PyStr ''alpha''), (''request'', PyInt 1),
                       (''results'', PyList [])])]
   \<and> fst (search_web stub_runtime ''alpha'' (stub_world [(''TAVILY_API_KEY'', ''tvly-1'')]))
       = fst (search_web stub_runtime ''alpha''
               ((stub_world [(''TAVILY_API_KEY'', ''tvly-1''), (''HOME'', ''/root'')])
                  \<lparr>trace := [LogInfo ''an earlier invocation'']\<rparr>))"
proof -
  let ?w0 = "stub_world [(''TAVILY_API_KEY'', ''tvly-1''), (''TAVILY_SEARCH_DELAY'', ''2'')]"
  let ?ra = "PyDict [(''query'', PyStr ''alpha''), (''request'', PyInt 1), (''results'', PyList [])]"
  let ?rb = "PyDict [(''query'', PyStr ''beta''), (''request'', PyInt 0), (''results'', PyList [])]"
  let ?w1 = "snd (search_web_start stub_runtime ''beta'' ?w0)"
  let ?w2 = "snd (search_web_start stub_runtime ''alpha'' ?w1)"
  let ?wa = "stub_world [(''TAVILY_API_KEY'', ''tvly-1'')]"
  let ?wb = "(stub_world [(''TAVILY_API_KEY'', ''tvly-1''), (''HOME'', ''/root'')])
               \<lparr>trace := [LogInfo ''an earlier invocation'']\<rparr>"
  have c: "TavilyClient stub_runtime ''tvly-1'' = Inr ''tvly-1''"
    by (simp add: stub_runtime_simps)
  have k0: "environ ?w0 ''TAVILY_API_KEY'' = Some ''tvly-1''"
    and s0: "search stub_runtime ''tvly-1'' ''beta'' ''advanced'' (service ?w0) = (Inr ?rb, 1)"
    by (simp_all add: stub_defs)
  have b: "fst (search_web_start stub_runtime ''beta'' ?w0) = Sleeping ?rb 2"
    and w1: "environ ?w1 = environ ?w0" "service ?w1 = 1" "int_max_str_digits ?w1 = 4300"
    by (simp_all add: start_search_ok [OF k0 c s0] Let_def stub_defs py_int_2)
  have k1: "environ ?w1 ''TAVILY_API_KEY'' = Some ''tvly-1''"
    and s1: "search stub_runtime ''tvly-1'' ''alpha'' ''advanced'' (service ?w1) = (Inr ?ra, 2)"
    by (simp_all add: w1 stub_defs)
  have a: "fst (search_web_start stub_runtime ''alpha'' ?w1) = Sleeping ?ra 2"
    by (simp add: start_search_ok [OF k1 c s1] Let_def w1 stub_defs py_int_2)
  have pb: "search_web_start stub_runtime ''beta'' ?w0 = (Sleeping ?rb 2, ?w1)"
    and pa: "search_web_start stub_runtime ''alpha'' ?w1 = (Sleeping ?ra 2, ?w2)"
    using a b by (simp_all add: prod_eq_iff)
  have r0: "sched_run stub_runtime (map Pending [''alpha'', ''beta''], ?w0)
              ([Pending ''alpha'', Pending ''beta''], ?w0)"
    using sched_run.idle [of stub_runtime "(map Pending [''alpha'', ''beta''], ?w0)"] by simp
  have st1: "sched_step stub_runtime ([Pending ''alpha'', Pending ''beta''], ?w0)
               ([Pending ''alpha'', Running (Sleeping ?rb 2)], ?w1)"
    using sched_step.start [where i = 1 and ts = "[Pending ''alpha'', Pending ''beta'']", OF _ _ pb]
    by simp
  have st2: "sched_step stub_runtime ([Pending ''alpha'', Running (Sleeping ?rb 2)], ?w1)
               ([Running (Sleeping ?ra 2), Running (Sleeping ?rb 2)], ?w2)"
    using sched_step.start
            [where i = 0 and ts = "[Pending ''alpha'', Running (Sleeping ?rb 2)]", OF _ _ pa]
    by simp
  have st3: "sched_step stub_runtime ([Running (Sleeping ?ra 2), Running (Sleeping ?rb 2)], ?w2)
               ([Running (Finished (Inr ?ra)), Running (Sleeping ?rb 2)], ?w2)"
    using sched_step.resume
            [where i = 0 and ts = "[Running (Sleeping ?ra 2), Running (Sleeping ?rb 2)]"
               and r = ?ra and n = 2 and rt = stub_runtime and w = ?w2]
    by (simp add: search_web_resume_def)
  have run: "sched_run stub_runtime (map Pending [''alpha'', ''beta''], ?w0)
               ([Running (Finished (Inr ?ra)), Running (Sleeping ?rb 2)], ?w2)"
    by (rule sched_run.step [OF sched_run.step [OF sched_run.step [OF r0 st1] st2] st3])
  have dist: "distinct [''alpha'', ''beta'']"
    by simp
  have i: "0 < length [''alpha'', ''beta'']"
    by simp
  have fin: "[Running (Finished (Inr ?ra)), Running (Sleeping ?rb 2)] ! 0
               = Running (Finished (Inr ?ra))"
    by simp
  note fact = no_cross_talk_between_invocations
                [OF dist run i fin, where wa = ?wa and wb = ?wb and q = "''alpha''"]
  have own: "responses_for ''alpha'' (new_events ?w0 ?w2) = [Inr ?ra]"
    using fact [THEN conjunct1] by simp
  have same: "environ ?wa ''TAVILY_API_KEY'' = environ ?wb ''TAVILY_API_KEY''
      \<and> environ ?wa ''TAVILY_SEARCH_DELAY'' = environ ?wb ''TAVILY_SEARCH_DELAY''
      \<and> int_max_str_digits ?wa = int_max_str_digits ?wb
      \<and> (\<forall>client. fst (search stub_runtime client ''alpha'' ''advanced'' (service ?wa))
                   = fst (search stub_runtime client ''alpha'' ''advanced'' (service ?wb)))"
    by (simp add: stub_defs)
  have indep: "fst (search_web stub_runtime ''alpha'' ?wa) = fst (search_web stub_runtime ''alpha'' ?wb)"
    by (rule fact [THEN conjunct2, THEN conjunct2, THEN mp, OF same])
  from dist run own indep show ?thesis
    by (intro conjI)
qed

subsection \<open>C9: an empty delay setting\<close>

text \<open>
  Claim C9. With the delay setting present and equal to the empty string the guard of
  line 82 is false, as it is for an absent setting: the invocation has the outcome,
  the effects and the service state it has with the setting removed, it awaits no
  sleep, and it returns the search result when the search succeeds. The conversion is
  never reached (it would raise on the empty string).
\<close>

theorem empty_delay_same_as_unset:
  assumes "environ w ''TAVILY_SEARCH_DELAY'' = Some []"
  shows "search_web rt q w =
           (case search_web rt q (w\<lparr>environ := (environ w)(''TAVILY_SEARCH_DELAY'' := None)\<rparr>) of
              (out, w') \<Rightarrow> (out, w'\<lparr>environ := environ w\<rparr>))
       \<and> suspensions (new_events w (snd (search_web rt q w))) = []
       \<and> py_int (int_max_str_digits w) [] = None
       \<and> (\<forall>key client r s'.
            environ w ''TAVILY_API_KEY'' = Some key \<and> TavilyClient rt key = Inr client
              \<and> search rt client q ''advanced'' (service w) = (Inr r, s')
            \<longrightarrow> fst (search_web rt q w) = Inr r)"
  using assms
  by (simp add: search_web_def search_web_start_def emit_def new_events_def Let_def py_int_empty
        split: option.splits sum.splits prod.splits)

theorem empty_delay_same_as_unset_witness:
  "environ (stub_world [(''TAVILY_API_KEY'', ''tvly-1''), (''TAVILY_SEARCH_DELAY'', '''')])
      ''TAVILY_SEARCH_DELAY'' = Some []
   \<and> fst (search_web stub_runtime ''news''
            (stub_world [(''TAVILY_API_KEY'', ''tvly-1''), (''TAVILY_SEARCH_DELAY'', '''')]))
       = Inr (PyDict [(''query'', PyStr ''news''), (''request'', PyInt 0),
                      (''results'', PyList [])])
   \<and> suspensions (new_events
         (stub_world [(''TAVILY_API_KEY'', ''tvly-1''), (''TAVILY_SEARCH_DELAY'', '''')])
         (snd (search_web stub_runtime ''news''
            (stub_world [(''TAVILY_API_KEY'', ''tvly-1''), (''TAVILY_SEARCH_DELAY'', '''')])))) = []"
proof -
  let ?w = "stub_world [(''TAVILY_API_KEY'', ''tvly-1''), (''TAVILY_SEARCH_DELAY'', '''')]"
  let ?r = "PyDict [(''query'', PyStr ''news''), (''request'', PyInt 0), (''results'', PyList [])]"
  have d: "environ ?w ''TAVILY_SEARCH_DELAY'' = Some []"
    by (simp add: stub_world_simps)
  have s: "environ ?w ''TAVILY_API_KEY'' = Some ''tvly-1''
             \<and> TavilyClient stub_runtime ''tvly-1'' = Inr ''tvly-1''
             \<and> search stub_runtime ''tvly-1'' ''news'' ''advanced'' (service ?w) = (Inr ?r, 1)"
    by (simp add: stub_defs)
  note fact = empty_delay_same_as_unset [OF d, of stub_runtime "''news''"]
  from fact have quiet: "suspensions (new_events ?w (snd (search_web stub_runtime ''news'' ?w))) = []"
    by (elim conjE)
  from fact s have "fst (search_web stub_runtime ''news'' ?w) = Inr ?r"
    by blast
  with d quiet show ?thesis
    by (intro conjI)
qed

subsection \<open>C10: the declared return type\<close>

text \<open>
  Claim C10. The signature of \<open>search_web\<close> announces \<^verbatim>\<open>str\<close>. When the search client
  answers with a value that is not a string (it answers with a dictionary), every value
  the tool returns is that value, unconverted, so its type is not the announced one.
\<close>

theorem declared_str_but_returns_search_payload:
  assumes "environ w ''TAVILY_API_KEY'' = Some key"
    and "TavilyClient rt key = Inr client"
    and "search rt client q ''advanced'' (service w) = (Inr r, s')"
    and "py_type r \<noteq> TyStr"
    and "fst (search_web rt q w) = Inr v"
  shows "v = r \<and> py_type v \<noteq> search_web_return_annotation"
  using assms
  by (auto simp add: search_web_def start_search_ok search_web_resume_def Let_def
        search_web_return_annotation_def split: option.splits if_splits)

theorem declared_str_but_returns_search_payload_witness:
  "environ (stub_world [(''TAVILY_API_KEY'', ''tvly-1'')]) ''TAVILY_API_KEY'' = Some ''tvly-1''
   \<and> TavilyClient stub_runtime ''tvly-1'' = Inr ''tvly-1''
   \<and> search stub_runtime ''tvly-1'' ''news'' ''advanced''
        (service (stub_world [(''TAVILY_API_KEY'', ''tvly-1'')]))
       = (Inr (PyDict [(''query'', PyStr ''news''), (''request'', PyInt 0),
                       (''results'', PyList [])]), 1)
   \<and> py_type (PyDict [(''query'', PyStr ''news''), (''request'', PyInt 0),
                       (''results'', PyList [])]) \<noteq> TyStr
   \<and> fst (search_web stub_runtime ''news'' (stub_world [(''TAVILY_API_KEY'', ''tvly-1'')]))
       = Inr (PyDict [(''query'', PyStr ''news''), (''request'', PyInt 0),
                      (''results'', PyList [])])
   \<and> py_type (PyDict [(''query'', PyStr ''news''), (''request'', PyInt 0),
                       (''results'', PyList [])]) \<noteq> search_web_return_annotation"
proof -
  let ?w = "stub_world [(''TAVILY_API_KEY'', ''tvly-1'')]"
  let ?r = "PyDict [(''query'', PyStr ''news''), (''request'', PyInt 0), (''results'', PyList [])]"
  have k: "environ ?w ''TAVILY_API_KEY'' = Some ''tvly-1''"
    and c: "TavilyClient stub_runtime ''tvly-1'' = Inr ''tvly-1''"
    and s: "search stub_runtime ''tvly-1'' ''news'' ''advanced'' (service ?w) = (Inr ?r, 1)"
    and t: "py_type ?r \<noteq> TyStr"
    by (simp_all add: stub_defs)
  have ret: "fst (search_web stub_runtime ''news'' ?w) = Inr ?r"
    using k c s by (simp add: search_web_def start_search_ok Let_def stub_world_simps)
  from declared_str_but_returns_search_payload [OF k c s t ret]
  have "py_type ?r \<noteq> search_web_return_annotation"
    by (elim conjE)
  with k c s t ret show ?thesis
    by (intro conjI)
qed

end
